theory Spec2Isabelle
  imports Complex_Main
begin

section \<open>The registration handler of \<^verbatim>\<open>src/app/api/auth/register/route.ts\<close>\<close>

subsection \<open>Values, errors, responses\<close>

text \<open>
  The handler receives whatever \<^verbatim>\<open>req.json()\<close> yields, typed \<^verbatim>\<open>any\<close>. A JavaScript
  value is a datatype; \<open>JUndefined\<close> is what reading an absent property gives. A number
  is the rational it holds (every finite double is one); the handler only ever tests
  whether it is zero. An object is the list of its properties.
\<close>

datatype js_value =
    JUndefined
  | JNull
  | JBool bool
  | JNum rat
  | JStr string
  | JArr "js_value list"
  | JObj "(string \<times> js_value) list"

text \<open>
  What the \<^verbatim>\<open>catch\<close> block reads of a thrown \<^verbatim>\<open>Error\<close> object: \<^verbatim>\<open>error.name\<close>,
  \<^verbatim>\<open>error.message\<close> and \<^verbatim>\<open>error.constructor.name\<close>. Everything the handler's callees
  throw is an instance of \<^verbatim>\<open>Error\<close>, for which all three are strings.
\<close>

record js_error =
  error_name :: string
  error_message :: string
  constructor_name :: string

text \<open>\<^verbatim>\<open>NextResponse.json({ message: m }, { status: s })\<close>.\<close>

record response =
  body_message :: string
  status :: nat

definition NextResponse_json :: "string \<Rightarrow> nat \<Rightarrow> response" where
  "NextResponse_json m s = \<lparr>body_message = m, status = s\<rparr>"

text \<open>A request, as far as the handler looks at it: the outcome of \<^verbatim>\<open>await req.json()\<close>,
  which throws when the body is not JSON text.\<close>

record request =
  req_json :: "js_error + js_value"

subsection \<open>JavaScript operations the handler uses\<close>

text \<open>\<^verbatim>\<open>!v\<close> is true exactly for the falsy values.\<close>

fun truthy :: "js_value \<Rightarrow> bool" where
  "truthy JUndefined = False"
| "truthy JNull = False"
| "truthy (JBool b) = b"
| "truthy (JNum n) = (n \<noteq> 0)"
| "truthy (JStr s) = (s \<noteq> [])"
| "truthy (JArr vs) = True"
| "truthy (JObj kvs) = True"

text \<open>\<^verbatim>\<open>s.startsWith(p)\<close> and \<^verbatim>\<open>s.includes(sub)\<close> on strings.\<close>

fun startsWith :: "string \<Rightarrow> string \<Rightarrow> bool" where
  "startsWith s [] = True"
| "startsWith [] (c # cs) = False"
| "startsWith (x # xs) (c # cs) = (x = c \<and> startsWith xs cs)"

fun includes_str :: "string \<Rightarrow> string \<Rightarrow> bool" where
  "includes_str [] sub = startsWith [] sub"
| "includes_str (x # xs) sub = (startsWith (x # xs) sub \<or> includes_str xs sub)"

text \<open>
  Reading one of the properties \<^verbatim>\<open>name\<close>, \<^verbatim>\<open>email\<close>, \<^verbatim>\<open>password\<close> off a value that
  is neither \<^verbatim>\<open>null\<close> nor \<^verbatim>\<open>undefined\<close>: an object gives the property or
  \<^verbatim>\<open>undefined\<close>; booleans, numbers, strings and arrays have no property of these names.
\<close>

fun property :: "js_value \<Rightarrow> string \<Rightarrow> js_value" where
  "property (JObj kvs) k = (case map_of kvs k of None \<Rightarrow> JUndefined | Some v \<Rightarrow> v)"
| "property v k = JUndefined"

text \<open>The \<^verbatim>\<open>TypeError\<close> the engine throws when \<^verbatim>\<open>null\<close> or \<^verbatim>\<open>undefined\<close> is
  destructured (the message is V8's).\<close>

definition destructure_error :: js_error where
  "destructure_error =
     \<lparr>error_name = ''TypeError'',
      error_message = ''Cannot destructure property 'name' of '(intermediate value)' as it is null.'',
      constructor_name = ''TypeError''\<rparr>"

text \<open>\<^verbatim>\<open>const { name, email, password } = v\<close>.\<close>

definition destructure :: "js_value \<Rightarrow> js_error + (js_value \<times> js_value \<times> js_value)" where
  "destructure v =
     (if v = JNull \<or> v = JUndefined then Inl destructure_error
      else Inr (property v ''name'', property v ''email'', property v ''password''))"

subsection \<open>The collaborators\<close>

text \<open>An Account, with the three fields the handler writes (\<^verbatim>\<open>name\<close>, \<^verbatim>\<open>email\<close> and
  \<^verbatim>\<open>hashedPassword\<close> in the \<^verbatim>\<open>data\<close> of \<^verbatim>\<open>create\<close>), under the names of the
  specification's data model.\<close>

record account =
  displayName :: string
  emailAddress :: string
  passwordHash :: string

text \<open>
  The handler calls \<^verbatim>\<open>prisma.user.findUnique({ where: { email } })\<close>,
  \<^verbatim>\<open>bcrypt.hash(password, 10)\<close> and \<^verbatim>\<open>prisma.user.create({ data: ... })\<close>. Both are
  libraries outside the file, so the handler takes them as parameters: each call either
  throws or returns, and only \<open>create\<close> changes the store (of type \<open>'db\<close>), and only when
  it returns.
\<close>

record 'db collaborators =
  findUnique :: "'db \<Rightarrow> js_value \<Rightarrow> js_error + account option"
  bcrypt_hash :: "js_value \<Rightarrow> nat \<Rightarrow> js_error + string"
  create :: "'db \<Rightarrow> js_value \<times> js_value \<times> string \<Rightarrow> js_error + 'db"

text \<open>The calls a run makes on its collaborators and on the console, in order.\<close>

datatype call =
    FindUnique js_value
  | BcryptHash js_value nat
  | Create js_value js_value string
  | ConsoleError js_error

fun is_read :: "call \<Rightarrow> bool" where
  "is_read (FindUnique w) = True"
| "is_read c = False"

fun is_write :: "call \<Rightarrow> bool" where
  "is_write (Create n e h) = True"
| "is_write c = False"

subsection \<open>The handler\<close>

text \<open>The body of \<^verbatim>\<open>try\<close>: \<open>Inl e\<close> is \<^verbatim>\<open>throw e\<close>, \<open>Inr r\<close> is \<^verbatim>\<open>return r\<close>.\<close>

definition try_block ::
  "'db collaborators \<Rightarrow> request \<Rightarrow> 'db \<Rightarrow> (js_error + response) \<times> 'db \<times> call list" where
  "try_block P req db =
     (case req_json req of
        Inl err \<Rightarrow> (Inl err, db, [])
      | Inr v \<Rightarrow>
          (case destructure v of
             Inl err \<Rightarrow> (Inl err, db, [])
           | Inr (name, email, password) \<Rightarrow>
               if \<not> truthy name \<or> \<not> truthy email \<or> \<not> truthy password
               then (Inr (NextResponse_json ''All fields are required'' 400), db, [])
               else
                 (case findUnique P db email of
                    Inl err \<Rightarrow> (Inl err, db, [FindUnique email])
                  | Inr existingUser \<Rightarrow>
                      if existingUser \<noteq> None
                      then (Inr (NextResponse_json ''User with this email already exists'' 409),
                            db, [FindUnique email])
                      else
                        (case bcrypt_hash P password 10 of
                           Inl err \<Rightarrow>
                             (Inl err, db, [FindUnique email, BcryptHash password 10])
                         | Inr hashedPassword \<Rightarrow>
                             (case create P db (name, email, hashedPassword) of
                                Inl err \<Rightarrow>
                                  (Inl err, db,
                                   [FindUnique email, BcryptHash password 10,
                                    Create name email hashedPassword])
                              | Inr db' \<Rightarrow>
                                  (Inr (NextResponse_json ''User registered successfully'' 201),
                                   db',
                                   [FindUnique email, BcryptHash password 10,
                                    Create name email hashedPassword]))))))"

text \<open>The body of \<^verbatim>\<open>catch (error)\<close>, after the \<^verbatim>\<open>console.error\<close>.\<close>

definition catch_block :: "js_error \<Rightarrow> response" where
  "catch_block error =
     (if error_name error = ''PrismaClientInitializationError''
         \<or> (error_message error \<noteq> [] \<and> includes_str (error_message error) ''DATABASE_URL'')
      then NextResponse_json
             ''Server configuration error: Database connection failed. Please contact support.'' 500
      else if startsWith (constructor_name error) ''PrismaClient''
      then NextResponse_json ''A database error occurred during registration.'' 500
      else NextResponse_json ''An unexpected error occurred. Please try again later.'' 500)"

text \<open>\<^verbatim>\<open>POST\<close>: the response, the store afterwards, and the calls made.\<close>

definition POST ::
  "'db collaborators \<Rightarrow> request \<Rightarrow> 'db \<Rightarrow> response \<times> 'db \<times> call list" where
  "POST P req db =
     (case try_block P req db of
        (Inr r, db', calls) \<Rightarrow> (r, db', calls)
      | (Inl error, db', calls) \<Rightarrow> (catch_block error, db', calls @ [ConsoleError error]))"

subsection \<open>The responses of the external interface\<close>

text \<open>The six (status, body) pairs that section 6 of the specification enumerates.\<close>

definition registered_response :: response where
  "registered_response = \<lparr>body_message = ''User registered successfully'', status = 201\<rparr>"

definition validation_response :: response where
  "validation_response = \<lparr>body_message = ''All fields are required'', status = 400\<rparr>"

definition conflict_response :: response where
  "conflict_response = \<lparr>body_message = ''User with this email already exists'', status = 409\<rparr>"

definition configuration_error_response :: response where
  "configuration_error_response =
     \<lparr>body_message =
        ''Server configuration error: Database connection failed. Please contact support.'',
      status = 500\<rparr>"

definition database_error_response :: response where
  "database_error_response =
     \<lparr>body_message = ''A database error occurred during registration.'', status = 500\<rparr>"

definition unexpected_error_response :: response where
  "unexpected_error_response =
     \<lparr>body_message = ''An unexpected error occurred. Please try again later.'', status = 500\<rparr>"

subsection \<open>The Identity Store\<close>

text \<open>
  The Prisma client (\<^verbatim>\<open>lib/prisma.ts\<close>) and its schema are not among the sources. The
  specification describes the Identity Store as a table of Accounts with a uniqueness
  lookup and an insert, \<open>emailAddress\<close> being unique across all accounts and the
  uniqueness constraint being enforced at the storage layer.
\<close>

text \<open>
  Modelled from the spec: the error of the store's uniqueness constraint, missing with
  the client. It carries the class name the client gives it; of its message the handler
  observes only that it does not mention \<^verbatim>\<open>DATABASE_URL\<close>.
\<close>

definition unique_constraint_error :: js_error where
  "unique_constraint_error =
     \<lparr>error_name = ''PrismaClientKnownRequestError'',
      error_message = ''Unique constraint failed on the fields: (`email`)'',
      constructor_name = ''PrismaClientKnownRequestError''\<rparr>"

text \<open>
  Modelled from the spec: the error for an argument that is not text, missing with the
  client. The Account's fields are text, and the client rejects a value of another type.
\<close>

definition argument_type_error :: js_error where
  "argument_type_error =
     \<lparr>error_name = ''PrismaClientValidationError'',
      error_message = ''Invalid value provided. Expected String.'',
      constructor_name = ''PrismaClientValidationError''\<rparr>"

text \<open>
  Modelled from the spec: the uniqueness lookup of the Identity Store,
  \<^verbatim>\<open>prisma.user.findUnique({ where: { email } })\<close>, missing with the client. The
  \<^verbatim>\<open>where\<close> clause is an equality filter on the column.
\<close>

fun store_findUnique :: "account list \<Rightarrow> js_value \<Rightarrow> js_error + account option" where
  "store_findUnique db (JStr e) = Inr (find (\<lambda>a. emailAddress a = e) db)"
| "store_findUnique db w = Inl argument_type_error"

text \<open>
  Modelled from the spec: the insert of the Identity Store,
  \<^verbatim>\<open>prisma.user.create({ data: { name, email, hashedPassword } })\<close>, missing with the
  client. The store refuses a second Account for an email; otherwise the table gains the
  new Account.
\<close>

fun store_create ::
  "account list \<Rightarrow> js_value \<times> js_value \<times> string \<Rightarrow> js_error + account list" where
  "store_create db (JStr n, JStr e, h) =
     (if e \<in> set (map emailAddress db) then Inl unique_constraint_error
      else Inr (db @ [\<lparr>displayName = n, emailAddress = e, passwordHash = h\<rparr>]))"
| "store_create db d = Inl argument_type_error"

text \<open>The handler's collaborators when requests are served one after the other: the
  store above and a password hasher \<open>h\<close>.\<close>

definition identity_store ::
  "(js_value \<Rightarrow> nat \<Rightarrow> js_error + string) \<Rightarrow> account list collaborators" where
  "identity_store h = \<lparr>findUnique = store_findUnique, bcrypt_hash = h, create = store_create\<rparr>"

text \<open>The number of Accounts with a given email.\<close>

definition account_count :: "string \<Rightarrow> account list \<Rightarrow> nat" where
  "account_count e db = length (filter (\<lambda>a. emailAddress a = e) db)"

text \<open>
  The store as a request meets it when another registration commits between its lookup
  and its insert (the two are separate \<^verbatim>\<open>await\<close>s): the lookup is answered from the
  table \<open>seen\<close> as it was before, the insert runs on the table as it is by then.
\<close>

definition racing_store ::
  "account list \<Rightarrow> (js_value \<Rightarrow> nat \<Rightarrow> js_error + string) \<Rightarrow> account list collaborators" where
  "racing_store seen h =
     \<lparr>findUnique = (\<lambda>db. store_findUnique seen), bcrypt_hash = h, create = store_create\<rparr>"

text \<open>Requests served one after the other, each with its own collaborators.\<close>

fun serve :: "(account list collaborators \<times> request) list \<Rightarrow> account list \<Rightarrow> account list" where
  "serve [] db = db"
| "serve ((P, req) # rs) db = serve rs (fst (snd (POST P req db)))"





text \<open>
  An Identity Store that cannot be used at all: every operation of the client throws
  the error \<open>e\<close> with which the client reports the failure, and no table is reached.
\<close>

definition unreachable_store ::
  "js_error \<Rightarrow> (js_value \<Rightarrow> nat \<Rightarrow> js_error + string) \<Rightarrow> account list collaborators" where
  "unreachable_store e h =
     \<lparr>findUnique = (\<lambda>db w. Inl e), bcrypt_hash = h, create = (\<lambda>db d. Inl e)\<rparr>"

subsection \<open>Notions of the specification\<close>

text \<open>A field is missing (reading it gives \<^verbatim>\<open>undefined\<close>) or empty (the empty string).\<close>

definition missing_or_empty :: "js_value \<Rightarrow> bool" where
  "missing_or_empty v = (v = JUndefined \<or> v = JStr [])"


subsection \<open>Concrete inputs\<close>

text \<open>The request of the specification's scenario:
  \<^verbatim>\<open>{name:"Sam", email:"sam@x.com", password:"pw123456"}\<close>.\<close>

definition sam_request :: request where
  "sam_request =
     \<lparr>req_json = Inr (JObj [(''name'', JStr ''Sam''), (''email'', JStr ''sam@x.com''),
                             (''password'', JStr ''pw123456'')])\<rparr>"

text \<open>A stand-in for \<^verbatim>\<open>bcrypt.hash\<close> at concrete inputs: it returns a string for a string
  and throws for anything else, as the library does.\<close>

definition example_hash :: "js_value \<Rightarrow> nat \<Rightarrow> js_error + string" where
  "example_hash v rounds =
     (case v of
        JStr p \<Rightarrow> Inr (''$2b$10$'' @ rev p)
      | _ \<Rightarrow> Inl \<lparr>error_name = ''Error'',
                  error_message = ''data must be a string or Buffer and salt must either be a salt string or a number of rounds'',
                  constructor_name = ''Error''\<rparr>)"

text \<open>What the client throws when its engine cannot start or connect (the class the
  handler's comment names).\<close>

definition initialization_error :: js_error where
  "initialization_error =
     \<lparr>error_name = ''PrismaClientInitializationError'',
      error_message = ''Can't reach database server at localhost:5432'',
      constructor_name = ''PrismaClientInitializationError''\<rparr>"

text \<open>What the client throws when the database server cannot be reached in the course of
  a request: a known request error (code P1001), not an initialization error.\<close>

definition connection_error :: js_error where
  "connection_error =
     \<lparr>error_name = ''PrismaClientKnownRequestError'',
      error_message = ''Can't reach database server at `localhost:5432`'',
      constructor_name = ''PrismaClientKnownRequestError''\<rparr>"

text \<open>A request whose name is the same string as its password.\<close>

definition name_is_password_request :: request where
  "name_is_password_request =
     \<lparr>req_json = Inr (JObj [(''name'', JStr ''pw123456''), (''email'', JStr ''sam@x.com''),
                             (''password'', JStr ''pw123456'')])\<rparr>"


text \<open>What \<^verbatim>\<open>req.json()\<close> throws for the body \<^verbatim>\<open>DATABASE_URL\<close>, which is not JSON text: the
  engine's message quotes the text it could not parse (the message is V8's).\<close>

definition quoting_syntax_error :: js_error where
  "quoting_syntax_error =
     \<lparr>error_name = ''SyntaxError'',
      error_message = ''Unexpected token 'D', \"DATABASE_URL\" is not valid JSON'',
      constructor_name = ''SyntaxError''\<rparr>"

section \<open>Properties\<close>

subsection \<open>Helper facts\<close>

lemmas response_defs =
  registered_response_def validation_response_def conflict_response_def
  configuration_error_response_def database_error_response_def unexpected_error_response_def
  NextResponse_json_def

lemma POST_throws:
  "try_block P req db = (Inl e, db', calls) \<Longrightarrow>
   POST P req db = (catch_block e, db', calls @ [ConsoleError e])"
  by (simp add: POST_def)

lemma POST_returns:
  "try_block P req db = (Inr r, db', calls) \<Longrightarrow> POST P req db = (r, db', calls)"
  by (simp add: POST_def)

lemma catch_block_cases:
  "catch_block e = configuration_error_response
   \<or> catch_block e = database_error_response
   \<or> catch_block e = unexpected_error_response"
  by (simp add: catch_block_def response_defs)

lemma lookup_misses_iff:
  "store_findUnique db (JStr e) = Inr None \<longleftrightarrow> e \<notin> set (map emailAddress db)"
  by (auto simp add: find_None_iff)

lemma lookup_hits:
  "e \<in> set (map emailAddress db) \<Longrightarrow> \<exists>a. store_findUnique db (JStr e) = Inr (Some a)"
  by (cases "find (\<lambda>a. emailAddress a = e) db") (auto simp add: find_None_iff)

lemma success_path:
  assumes "req_json req = Inr v" and "destructure v = Inr (JStr n, JStr e, JStr p)"
    and "n \<noteq> []" and "e \<noteq> []" and "p \<noteq> []"
    and "e \<notin> set (map emailAddress db)" and "h (JStr p) 10 = Inr hp"
  shows "POST (identity_store h) req db
         = (registered_response,
            db @ [\<lparr>displayName = n, emailAddress = e, passwordHash = hp\<rparr>],
            [FindUnique (JStr e), BcryptHash (JStr p) 10, Create (JStr n) (JStr e) hp])"
proof -
  have "find (\<lambda>a. emailAddress a = e) db = None"
    using assms(6) by (auto simp add: find_None_iff)
  then show ?thesis
    using assms by (simp add: POST_def try_block_def identity_store_def response_defs)
qed

lemma conflict_path:
  assumes "req_json req = Inr v" and "destructure v = Inr (JStr n, JStr e, JStr p)"
    and "n \<noteq> []" and "e \<noteq> []" and "p \<noteq> []"
    and "e \<in> set (map emailAddress db)"
  shows "POST (identity_store h) req db = (conflict_response, db, [FindUnique (JStr e)])"
proof -
  obtain a where "store_findUnique db (JStr e) = Inr (Some a)"
    using lookup_hits [OF assms(6)] ..
  then show ?thesis
    using assms(1-5) by (simp add: POST_def try_block_def identity_store_def response_defs)
qed

lemma count_le_one:
  "distinct (map emailAddress db) \<Longrightarrow> account_count e db \<le> 1"
  unfolding account_count_def
  by (induction db) (auto simp add: filter_empty_conv image_iff)

lemma count_ge_one:
  "e \<in> set (map emailAddress db) \<Longrightarrow> 1 \<le> account_count e db"
  unfolding account_count_def
  by (induction db) auto

lemma store_create_unique:
  "distinct (map emailAddress db) \<Longrightarrow> store_create db d = Inr db' \<Longrightarrow>
   distinct (map emailAddress db')"
  by (induction db d rule: store_create.induct) (auto split: if_splits)

lemma POST_store_cases:
  "fst (snd (POST P req db)) = db
   \<or> (\<exists>d. create P db d = Inr (fst (snd (POST P req db))))"
  by (auto simp add: POST_def try_block_def split: sum.splits prod.splits if_splits)

lemma POST_unique:
  assumes "create P = store_create" and "distinct (map emailAddress db)"
  shows "distinct (map emailAddress (fst (snd (POST P req db))))"
  using POST_store_cases [of P req db] assms store_create_unique by metis

lemma serve_unique:
  "\<forall>(P, req) \<in> set rs. create P = store_create \<Longrightarrow> distinct (map emailAddress db) \<Longrightarrow>
   distinct (map emailAddress (serve rs db))"
proof (induction rs arbitrary: db)
  case Nil
  then show ?case by simp
next
  case (Cons r rs)
  obtain P req where r: "r = (P, req)" by (cases r)
  with Cons.prems have "create P = store_create" by simp
  then have "distinct (map emailAddress (fst (snd (POST P req db))))"
    using Cons.prems(2) by (rule POST_unique)
  with Cons r show ?case by simp
qed

subsection \<open>Error classification\<close>

text \<open>
  Claim C10. Whatever the \<^verbatim>\<open>try\<close> block throws is classified by its name and message
  text alone: an error named \<^verbatim>\<open>PrismaClientInitializationError\<close>, or whose message
  contains \<^verbatim>\<open>DATABASE_URL\<close>, gives the 500 configuration-error response, whichever
  call threw it; otherwise an error whose constructor name starts with \<^verbatim>\<open>PrismaClient\<close>
  gives the 500 database-error response; every remaining error gives the 500 generic
  fallback.
\<close>

theorem catch_classifies_by_name_and_message:
  assumes "try_block P req db = (Inl e, db', calls)"
  shows "(error_name e = ''PrismaClientInitializationError''
            \<or> includes_str (error_message e) ''DATABASE_URL''
          \<longrightarrow> fst (POST P req db) = configuration_error_response)
       \<and> (\<not> (error_name e = ''PrismaClientInitializationError''
               \<or> includes_str (error_message e) ''DATABASE_URL'')
            \<and> startsWith (constructor_name e) ''PrismaClient''
          \<longrightarrow> fst (POST P req db) = database_error_response)
       \<and> (\<not> (error_name e = ''PrismaClientInitializationError''
               \<or> includes_str (error_message e) ''DATABASE_URL'')
            \<and> \<not> startsWith (constructor_name e) ''PrismaClient''
          \<longrightarrow> fst (POST P req db) = unexpected_error_response)"
proof -
  have "fst (POST P req db) = catch_block e"
    using assms by (simp add: POST_throws)
  moreover have "error_message e = [] \<Longrightarrow> \<not> includes_str (error_message e) ''DATABASE_URL''"
    by simp
  ultimately show ?thesis
    by (auto simp add: catch_block_def response_defs)
qed

theorem catch_classifies_by_name_and_message_witness:
  "try_block ((identity_store example_hash)\<lparr>findUnique := \<lambda>db w. Inl initialization_error\<rparr>)
     sam_request []
   = (Inl initialization_error, [], [FindUnique (JStr ''sam@x.com'')])
   \<and> fst (POST ((identity_store example_hash)\<lparr>findUnique := \<lambda>db w. Inl initialization_error\<rparr>)
            sam_request [])
     = configuration_error_response"
proof -
  have h: "try_block
             ((identity_store example_hash)\<lparr>findUnique := \<lambda>db w. Inl initialization_error\<rparr>)
             sam_request ([] :: account list)
           = (Inl initialization_error, [], [FindUnique (JStr ''sam@x.com'')])"
    by (simp add: try_block_def destructure_def identity_store_def sam_request_def)
  show ?thesis
    using h catch_classifies_by_name_and_message [OF h]
    by (simp add: initialization_error_def)
qed

subsection \<open>The handler boundary\<close>

lemma try_block_returns_cases:
  "try_block P req db = (Inr r, db', calls) \<Longrightarrow>
   r = registered_response \<or> r = validation_response \<or> r = conflict_response"
  by (auto simp add: try_block_def response_defs split: sum.splits if_splits prod.splits)

text \<open>
  Claim C7. Whatever the request, the collaborators and the error raised inside the
  handler, the handler returns a response, and it is one of the six enumerated
  (status, body) pairs: 201, 400, 409 or one of the three fixed 500 messages. The six
  bodies are fixed texts, so nothing of the error (stack trace, driver message) is in
  the response.
\<close>

theorem handler_returns_one_of_six:
  "fst (POST P req db) \<in>
     {registered_response, validation_response, conflict_response,
      configuration_error_response, database_error_response, unexpected_error_response}"
proof -
  obtain x db' calls where t: "try_block P req db = (x, db', calls)"
    by (cases "try_block P req db") auto
  show ?thesis
  proof (cases x)
    case (Inl e)
    with t have "fst (POST P req db) = catch_block e"
      by (simp add: POST_throws)
    then show ?thesis
      using catch_block_cases [of e] by auto
  next
    case (Inr r)
    with t have "fst (POST P req db) = r"
      by (simp add: POST_returns)
    then show ?thesis
      using try_block_returns_cases [of P req db r db' calls] t Inr by auto
  qed
qed

theorem handler_returns_one_of_six_witness:
  "fst (POST (identity_store example_hash) \<lparr>req_json = Inr JNull\<rparr> []) = unexpected_error_response
   \<and> fst (POST (identity_store example_hash) \<lparr>req_json = Inr JNull\<rparr> []) \<in>
     {registered_response, validation_response, conflict_response,
      configuration_error_response, database_error_response, unexpected_error_response}"
  using handler_returns_one_of_six [of "identity_store example_hash" "\<lparr>req_json = Inr JNull\<rparr>" "[]"]
  by (simp add: POST_def try_block_def destructure_def destructure_error_def catch_block_def
        response_defs)

subsection \<open>Validation\<close>

lemma missing_or_empty_is_falsy: "missing_or_empty x \<Longrightarrow> \<not> truthy x"
  by (auto simp add: missing_or_empty_def)

text \<open>
  Claim C3, as stated, fails at the body \<^verbatim>\<open>null\<close>: it is JSON, all three fields are
  missing from it, destructuring it throws a \<^verbatim>\<open>TypeError\<close>, and the handler answers
  with the generic status 500, not with the 400 validation response.
\<close>

theorem null_body_counterexample:
  "missing_or_empty (property JNull ''name'')
   \<and> POST (identity_store example_hash) \<lparr>req_json = Inr JNull\<rparr> []
     = (unexpected_error_response, [], [ConsoleError destructure_error])
   \<and> unexpected_error_response \<noteq> validation_response"
  by (simp add: missing_or_empty_def POST_def try_block_def destructure_def
        destructure_error_def catch_block_def response_defs)

text \<open>
  Claim C3, amended. For every request whose body parses to a JSON value other than
  \<^verbatim>\<open>null\<close>: when any of the fields \<^verbatim>\<open>name\<close>, \<^verbatim>\<open>email\<close>, \<^verbatim>\<open>password\<close> is missing, empty
  or otherwise falsy (\<^verbatim>\<open>null\<close>, \<^verbatim>\<open>false\<close>, \<^verbatim>\<open>0\<close>), the handler returns status 400 with
  body "All fields are required", makes no call at all on its collaborators (no
  Identity Store read or write) and leaves the store unchanged, so no Account is
  created; and when none is, the response is not the validation response.
\<close>

theorem falsy_field_is_rejected:
  assumes "req_json req = Inr v" and "v \<noteq> JNull" and "v \<noteq> JUndefined"
  shows "(\<forall>x. missing_or_empty x \<longrightarrow> \<not> truthy x)
       \<and> (\<not> truthy (property v ''name'') \<or> \<not> truthy (property v ''email'')
            \<or> \<not> truthy (property v ''password'')
          \<longrightarrow> POST P req db = (validation_response, db, []))
       \<and> (truthy (property v ''name'') \<and> truthy (property v ''email'')
            \<and> truthy (property v ''password'')
          \<longrightarrow> fst (POST P req db) \<noteq> validation_response)"
proof (intro conjI allI impI)
  fix x assume "missing_or_empty x"
  then show "\<not> truthy x"
    by (rule missing_or_empty_is_falsy)
next
  assume "\<not> truthy (property v ''name'') \<or> \<not> truthy (property v ''email'')
          \<or> \<not> truthy (property v ''password'')"
  then have "try_block P req db = (Inr validation_response, db, [])"
    using assms by (simp add: try_block_def destructure_def response_defs)
  then show "POST P req db = (validation_response, db, [])"
    by (rule POST_returns)
next
  assume t: "truthy (property v ''name'') \<and> truthy (property v ''email'')
             \<and> truthy (property v ''password'')"
  obtain x db' calls where b: "try_block P req db = (x, db', calls)"
    by (cases "try_block P req db") auto
  show "fst (POST P req db) \<noteq> validation_response"
  proof (cases x)
    case (Inl e)
    with b have "fst (POST P req db) = catch_block e"
      by (simp add: POST_throws)
    then show ?thesis
      using catch_block_cases [of e] by (auto simp add: response_defs)
  next
    case (Inr r)
    with b have f: "fst (POST P req db) = r"
      by (simp add: POST_returns)
    have "r = registered_response \<or> r = conflict_response"
      using b Inr t assms
      by (auto simp add: try_block_def destructure_def response_defs
            split: sum.splits if_splits)
    then show ?thesis
      using f by (auto simp add: response_defs)
  qed
qed

theorem falsy_field_is_rejected_witness:
  "\<not> truthy (property (JObj [(''name'', JStr ''Sam''), (''email'', JStr []),
                               (''password'', JNum 0)]) ''email'')
   \<and> POST (identity_store example_hash)
       \<lparr>req_json = Inr (JObj [(''name'', JStr ''Sam''), (''email'', JStr []),
                               (''password'', JNum 0)])\<rparr> []
     = (validation_response, [], [])"
  using falsy_field_is_rejected
    [of "\<lparr>req_json = Inr (JObj [(''name'', JStr ''Sam''), (''email'', JStr []),
                                 (''password'', JNum 0)])\<rparr>"
        "JObj [(''name'', JStr ''Sam''), (''email'', JStr []), (''password'', JNum 0)]"
        "identity_store example_hash" "[]"]
  by simp

subsection \<open>A body that is not JSON\<close>

text \<open>A body that is not JSON text, and whose \<^verbatim>\<open>SyntaxError\<close> does not mention
  \<^verbatim>\<open>DATABASE_URL\<close>, reaches the generic fallback; no collaborator is called.\<close>

lemma unparseable_body_reaches_fallback:
  assumes "req_json req = Inl e"
    and "error_name e = ''SyntaxError''" and "constructor_name e = ''SyntaxError''"
    and "\<not> includes_str (error_message e) ''DATABASE_URL''"
  shows "POST P req db = (unexpected_error_response, db, [ConsoleError e])"
proof -
  have t: "try_block P req db = (Inl e, db, [])"
    using assms(1) by (simp add: try_block_def)
  have p: "POST P req db = (catch_block e, db, [ConsoleError e])"
    using POST_throws [OF t] by simp
  show ?thesis
    using assms(2-4) by (auto simp add: p catch_block_def response_defs)
qed

text \<open>
  Claim C8 says that every request whose body is not parseable as JSON gets status 500
  with "An unexpected error occurred. Please try again later.". The handler misses it
  at the body \<^verbatim>\<open>DATABASE_URL\<close>: it is not JSON text, the engine's \<^verbatim>\<open>SyntaxError\<close> quotes
  it, and the test on the message in the branch written for the client's
  initialization error takes the error, so that the answer to the malformed body is
  "Server configuration error: Database connection failed. Please contact support.".
  No collaborator is called and the store is unchanged.
\<close>

theorem quoted_database_url_is_reported_as_configuration_error:
  "error_name quoting_syntax_error = ''SyntaxError''
   \<and> constructor_name quoting_syntax_error = ''SyntaxError''
   \<and> POST (identity_store example_hash) \<lparr>req_json = Inl quoting_syntax_error\<rparr> []
     = (configuration_error_response, [], [ConsoleError quoting_syntax_error])
   \<and> configuration_error_response \<noteq> unexpected_error_response"
  by (simp add: POST_def try_block_def catch_block_def quoting_syntax_error_def response_defs)

subsection \<open>An unreachable store\<close>

text \<open>
  Claim C6, as stated, fails twice. A store that cannot be reached in the course of a
  request is reported by the client with a known request error, which the handler
  answers with "A database error occurred during registration.", not with the
  configuration-error message. And a request with a missing field is answered 400
  before the store is consulted, whatever the state of the store.
\<close>

theorem unreachable_store_counterexample:
  "POST (unreachable_store connection_error example_hash) sam_request []
   = (database_error_response, [],
      [FindUnique (JStr ''sam@x.com''), ConsoleError connection_error])
   \<and> database_error_response \<noteq> configuration_error_response
   \<and> POST (unreachable_store initialization_error example_hash)
       \<lparr>req_json = Inr (JObj [(''name'', JStr ''Sam'')])\<rparr> []
     = (validation_response, [], [])
   \<and> validation_response \<noteq> configuration_error_response"
  by (simp add: POST_def try_block_def destructure_def unreachable_store_def sam_request_def
        catch_block_def connection_error_def response_defs)

text \<open>
  Claim C6, amended. When a request that passed validation meets an Identity Store
  that fails, that is, when the lookup throws, or the lookup finds nothing and the
  insert throws, the handler returns status 500 and the store is as it was: no Account
  is created. The body is exactly "Server configuration error: Database connection
  failed. Please contact support." when the error thrown is named
  \<^verbatim>\<open>PrismaClientInitializationError\<close> (initialization failure) or its message contains
  \<^verbatim>\<open>DATABASE_URL\<close> (missing connection configuration); for any other error of the client
  (a constructor name starting with \<^verbatim>\<open>PrismaClient\<close>) it is "A database error occurred
  during registration.", and otherwise the generic fallback.
\<close>

theorem failing_store_is_server_error:
  assumes "req_json req = Inr v" and "destructure v = Inr (name, email, password)"
    and "truthy name" and "truthy email" and "truthy password"
    and "findUnique P db email = Inl e
         \<or> (findUnique P db email = Inr None \<and> bcrypt_hash P password 10 = Inr h
            \<and> create P db (name, email, h) = Inl e)"
  shows "status (fst (POST P req db)) = 500
       \<and> fst (snd (POST P req db)) = db
       \<and> fst (POST P req db)
         = (if error_name e = ''PrismaClientInitializationError''
               \<or> includes_str (error_message e) ''DATABASE_URL''
            then configuration_error_response
            else if startsWith (constructor_name e) ''PrismaClient''
            then database_error_response
            else unexpected_error_response)"
proof -
  have "\<exists>calls. try_block P req db = (Inl e, db, calls)"
    using assms by (auto simp add: try_block_def)
  then obtain calls where "try_block P req db = (Inl e, db, calls)" ..
  then have p: "POST P req db = (catch_block e, db, calls @ [ConsoleError e])"
    by (rule POST_throws)
  have n: "error_message e = [] \<Longrightarrow> \<not> includes_str (error_message e) ''DATABASE_URL''"
    by simp
  show ?thesis
    using n by (auto simp add: p catch_block_def response_defs)
qed

theorem failing_store_is_server_error_witness:
  "POST (unreachable_store initialization_error example_hash) sam_request []
   = (configuration_error_response, [],
      [FindUnique (JStr ''sam@x.com''), ConsoleError initialization_error])
   \<and> status (fst (POST (unreachable_store initialization_error example_hash) sam_request []))
     = 500
   \<and> fst (snd (POST (unreachable_store initialization_error example_hash) sam_request []))
     = []"
proof -
  have e: "POST (unreachable_store initialization_error example_hash) sam_request []
           = (configuration_error_response, [],
              [FindUnique (JStr ''sam@x.com''), ConsoleError initialization_error])"
    by (simp add: POST_def try_block_def destructure_def unreachable_store_def
          sam_request_def catch_block_def initialization_error_def response_defs)
  have "req_json sam_request
        = Inr (JObj [(''name'', JStr ''Sam''), (''email'', JStr ''sam@x.com''),
                     (''password'', JStr ''pw123456'')])"
    and "destructure (JObj [(''name'', JStr ''Sam''), (''email'', JStr ''sam@x.com''),
                            (''password'', JStr ''pw123456'')])
         = Inr (JStr ''Sam'', JStr ''sam@x.com'', JStr ''pw123456'')"
    and "truthy (JStr ''Sam'')" and "truthy (JStr ''sam@x.com'')"
    and "truthy (JStr ''pw123456'')"
    and "findUnique (unreachable_store initialization_error example_hash) []
           (JStr ''sam@x.com'') = Inl initialization_error
         \<or> (findUnique (unreachable_store initialization_error example_hash) []
               (JStr ''sam@x.com'') = Inr None
            \<and> bcrypt_hash (unreachable_store initialization_error example_hash)
                 (JStr ''pw123456'') 10 = Inr ''$2b$10$654321wp''
            \<and> create (unreachable_store initialization_error example_hash) []
                 (JStr ''Sam'', JStr ''sam@x.com'', ''$2b$10$654321wp'')
               = Inl initialization_error)"
    by (simp_all add: sam_request_def destructure_def unreachable_store_def)
  from failing_store_is_server_error
         [of sam_request _ "JStr ''Sam''" "JStr ''sam@x.com''" "JStr ''pw123456''"
             "unreachable_store initialization_error example_hash" "[]"
             initialization_error "''$2b$10$654321wp''", OF this]
  show ?thesis
    using e by simp
qed

subsection \<open>The insert rejected by the uniqueness constraint\<close>

text \<open>
  Claim C4 asks that an insert rejected by the store's uniqueness constraint be
  reported as the conflict, status 409. The handler does not: while the request of the
  specification's scenario was between its lookup and its insert, another registration
  of \<^verbatim>\<open>sam@x.com\<close> committed; the lookup had found nothing, the insert is rejected, and
  the error falls into the general branch for the client's errors, status 500 with "A
  database error occurred during registration.". The store holds the other
  registration's Account and no second one.
\<close>

theorem lost_race_is_reported_as_database_error:
  "POST (racing_store [] example_hash) sam_request
     [\<lparr>displayName = ''Samantha'', emailAddress = ''sam@x.com'', passwordHash = ''$2b$10$other''\<rparr>]
   = (database_error_response,
      [\<lparr>displayName = ''Samantha'', emailAddress = ''sam@x.com'', passwordHash = ''$2b$10$other''\<rparr>],
      [FindUnique (JStr ''sam@x.com''), BcryptHash (JStr ''pw123456'') 10,
       Create (JStr ''Sam'') (JStr ''sam@x.com'') ''$2b$10$654321wp'',
       ConsoleError unique_constraint_error])
   \<and> database_error_response \<noteq> conflict_response"
  by (simp add: POST_def try_block_def destructure_def racing_store_def sam_request_def
        example_hash_def catch_block_def unique_constraint_error_def response_defs)

subsection \<open>Successful registration\<close>



subsection \<open>One Account per email\<close>

text \<open>
  Claim C2. At most one Account exists per \<open>emailAddress\<close> at any time: in every store
  reached from the empty one by serving requests whose inserts go through the store's
  insert, every email has at most one Account. In such a store, a request with non-empty
  name, email and password whose email \<open>e\<close> already has an Account gets status 409 with
  body "User with this email already exists"; the store is unchanged, so no Account is
  created, and the number of Accounts for \<open>e\<close> is still 1.
\<close>

theorem one_account_per_email:
  assumes "\<forall>(P, req) \<in> set rs. create P = store_create" and "db = serve rs []"
  shows "(\<forall>e. account_count e db \<le> 1)
       \<and> (\<forall>req v n e p h.
            req_json req = Inr v \<and> destructure v = Inr (JStr n, JStr e, JStr p)
            \<and> n \<noteq> [] \<and> e \<noteq> [] \<and> p \<noteq> [] \<and> e \<in> set (map emailAddress db)
            \<longrightarrow> POST (identity_store h) req db = (conflict_response, db, [FindUnique (JStr e)])
                \<and> account_count e (fst (snd (POST (identity_store h) req db))) = 1)"
proof -
  have d: "distinct (map emailAddress db)"
    using serve_unique [OF assms(1), of "[]"] assms(2) by simp
  have one: "account_count e db = 1" if "e \<in> set (map emailAddress db)" for e
    using count_le_one [OF d, of e] count_ge_one [OF that] by simp
  show ?thesis
  proof (intro conjI allI impI)
    fix e show "account_count e db \<le> 1"
      using d by (rule count_le_one)
  next
    fix req :: request and v n e p and h :: "js_value \<Rightarrow> nat \<Rightarrow> js_error + string"
    assume a: "req_json req = Inr v \<and> destructure v = Inr (JStr n, JStr e, JStr p)
            \<and> n \<noteq> [] \<and> e \<noteq> [] \<and> p \<noteq> [] \<and> e \<in> set (map emailAddress db)"
    then have c: "POST (identity_store h) req db = (conflict_response, db, [FindUnique (JStr e)])"
      by (intro conflict_path) auto
    show "POST (identity_store h) req db = (conflict_response, db, [FindUnique (JStr e)])"
      by (rule c)
    show "account_count e (fst (snd (POST (identity_store h) req db))) = 1"
      using a one by (simp add: c)
  qed
qed

theorem one_account_per_email_witness:
  "serve [(identity_store example_hash, sam_request)] []
   = [\<lparr>displayName = ''Sam'', emailAddress = ''sam@x.com'', passwordHash = ''$2b$10$654321wp''\<rparr>]
   \<and> POST (identity_store example_hash) sam_request
       (serve [(identity_store example_hash, sam_request)] [])
     = (conflict_response,
        [\<lparr>displayName = ''Sam'', emailAddress = ''sam@x.com'', passwordHash = ''$2b$10$654321wp''\<rparr>],
        [FindUnique (JStr ''sam@x.com'')])
   \<and> account_count ''sam@x.com'' (serve [(identity_store example_hash, sam_request)] []) = 1"
proof -
  have s: "serve [(identity_store example_hash, sam_request)] []
     = [\<lparr>displayName = ''Sam'', emailAddress = ''sam@x.com'', passwordHash = ''$2b$10$654321wp''\<rparr>]"
    by (simp add: POST_def try_block_def destructure_def identity_store_def sam_request_def
          example_hash_def)
  have c: "\<forall>(P, req) \<in> set [(identity_store example_hash, sam_request)]. create P = store_create"
    by (simp add: identity_store_def)
  have q: "req_json sam_request = Inr (JObj [(''name'', JStr ''Sam''), (''email'', JStr ''sam@x.com''),
               (''password'', JStr ''pw123456'')])
     \<and> destructure (JObj [(''name'', JStr ''Sam''), (''email'', JStr ''sam@x.com''),
               (''password'', JStr ''pw123456'')])
        = Inr (JStr ''Sam'', JStr ''sam@x.com'', JStr ''pw123456'')
     \<and> ''Sam'' \<noteq> [] \<and> ''sam@x.com'' \<noteq> [] \<and> ''pw123456'' \<noteq> []
     \<and> ''sam@x.com'' \<in> set (map emailAddress
          [\<lparr>displayName = ''Sam'', emailAddress = ''sam@x.com'', passwordHash = ''$2b$10$654321wp''\<rparr>])"
    by (simp add: sam_request_def destructure_def)
  from one_account_per_email [OF c s [symmetric]] q
  have "POST (identity_store example_hash) sam_request
          [\<lparr>displayName = ''Sam'', emailAddress = ''sam@x.com'', passwordHash = ''$2b$10$654321wp''\<rparr>]
        = (conflict_response,
           [\<lparr>displayName = ''Sam'', emailAddress = ''sam@x.com'', passwordHash = ''$2b$10$654321wp''\<rparr>],
           [FindUnique (JStr ''sam@x.com'')])
      \<and> account_count ''sam@x.com''
          [\<lparr>displayName = ''Sam'', emailAddress = ''sam@x.com'', passwordHash = ''$2b$10$654321wp''\<rparr>] = 1"
    by (metis fst_conv snd_conv)
  then show ?thesis
    unfolding s by simp
qed

subsection \<open>The stored password hash\<close>

text \<open>
  Claim C5, as stated, fails at a request whose name is the same string as its
  password: the registration succeeds, and the stored Account has the plaintext
  password in its \<open>displayName\<close>.
\<close>

theorem plaintext_in_name_counterexample:
  "property (JObj [(''name'', JStr ''pw123456''), (''email'', JStr ''sam@x.com''),
                   (''password'', JStr ''pw123456'')]) ''password'' = JStr ''pw123456''
   \<and> POST (identity_store example_hash) name_is_password_request []
     = (registered_response,
        [\<lparr>displayName = ''pw123456'', emailAddress = ''sam@x.com'',
          passwordHash = ''$2b$10$654321wp''\<rparr>],
        [FindUnique (JStr ''sam@x.com''), BcryptHash (JStr ''pw123456'') 10,
         Create (JStr ''pw123456'') (JStr ''sam@x.com'') ''$2b$10$654321wp''])
   \<and> displayName (last (fst (snd (POST (identity_store example_hash)
                                       name_is_password_request []))))
     = ''pw123456''"
  by (simp add: POST_def try_block_def destructure_def identity_store_def
        name_is_password_request_def example_hash_def response_defs)

text \<open>
  Claim C5, amended. For every successful registration the Account appended to the
  store is exactly this: \<open>displayName\<close> is the request's name, \<open>emailAddress\<close> the
  request's email, and \<open>passwordHash\<close> the value the hasher returned for the plaintext
  password with work factor 10, which is the only call on the hasher. The handler
  writes the password to no field: the store depends on the password only through
  that hash, so that two registrations that differ only in passwords with the same hash
  leave the same store.
\<close>

theorem stored_record_is_name_email_hash:
  assumes "req_json req = Inr v" and "destructure v = Inr (JStr n, JStr e, JStr p)"
    and "n \<noteq> []" and "e \<noteq> []" and "p \<noteq> []"
    and "e \<notin> set (map emailAddress db)" and "h (JStr p) 10 = Inr hp"
  shows "fst (snd (POST (identity_store h) req db))
         = db @ [\<lparr>displayName = n, emailAddress = e, passwordHash = hp\<rparr>]
       \<and> filter (\<lambda>c. \<not> is_read c \<and> \<not> is_write c) (snd (snd (POST (identity_store h) req db)))
         = [BcryptHash (JStr p) 10]
       \<and> (\<forall>req' v' p'.
            req_json req' = Inr v' \<and> destructure v' = Inr (JStr n, JStr e, JStr p')
            \<and> p' \<noteq> [] \<and> h (JStr p') 10 = Inr hp
            \<longrightarrow> fst (snd (POST (identity_store h) req' db))
                = fst (snd (POST (identity_store h) req db)))"
proof -
  have s: "POST (identity_store h) req db
           = (registered_response,
              db @ [\<lparr>displayName = n, emailAddress = e, passwordHash = hp\<rparr>],
              [FindUnique (JStr e), BcryptHash (JStr p) 10, Create (JStr n) (JStr e) hp])"
    using success_path [of req v n e p db h hp] assms by simp
  have s': "POST (identity_store h) req' db
           = (registered_response,
              db @ [\<lparr>displayName = n, emailAddress = e, passwordHash = hp\<rparr>],
              [FindUnique (JStr e), BcryptHash (JStr p') 10, Create (JStr n) (JStr e) hp])"
    if "req_json req' = Inr v' \<and> destructure v' = Inr (JStr n, JStr e, JStr p')
        \<and> p' \<noteq> [] \<and> h (JStr p') 10 = Inr hp" for req' v' p'
    using success_path [of req' v' n e p' db h hp] assms(3,4,6) that by simp
  show ?thesis
    using s' by (auto simp add: s)
qed

theorem stored_record_is_name_email_hash_witness:
  "fst (snd (POST (identity_store example_hash) sam_request []))
   = [\<lparr>displayName = ''Sam'', emailAddress = ''sam@x.com'', passwordHash = ''$2b$10$654321wp''\<rparr>]
   \<and> filter (\<lambda>c. \<not> is_read c \<and> \<not> is_write c)
        (snd (snd (POST (identity_store example_hash) sam_request [])))
     = [BcryptHash (JStr ''pw123456'') 10]"
proof -
  have "req_json sam_request
        = Inr (JObj [(''name'', JStr ''Sam''), (''email'', JStr ''sam@x.com''),
                     (''password'', JStr ''pw123456'')])"
    and "destructure (JObj [(''name'', JStr ''Sam''), (''email'', JStr ''sam@x.com''),
                            (''password'', JStr ''pw123456'')])
         = Inr (JStr ''Sam'', JStr ''sam@x.com'', JStr ''pw123456'')"
    and "''Sam'' \<noteq> []" and "''sam@x.com'' \<noteq> []" and "''pw123456'' \<noteq> []"
    and "''sam@x.com'' \<notin> set (map emailAddress [])"
    and "example_hash (JStr ''pw123456'') 10 = Inr ''$2b$10$654321wp''"
    by (simp_all add: sam_request_def destructure_def example_hash_def)
  from stored_record_is_name_email_hash
         [of sam_request _ "''Sam''" "''sam@x.com''" "''pw123456''" "[]" example_hash
             "''$2b$10$654321wp''", OF this]
  show ?thesis
    by simp
qed

subsection \<open>Letter case of the email\<close>






end
